theory Spec2Isabelle
  imports Main
begin

section \<open>Data model of package worker\<close>

text \<open>
  The part of Go's \<^verbatim>\<open>url.URL\<close> that the worker reads or writes. Only \<^verbatim>\<open>Path\<close> is ever
  changed (on a copy of the struct); the other fields travel along unchanged.
\<close>

record url =
  Scheme :: string
  Host :: string
  Path :: string
  RawQuery :: string

text \<open>\<^verbatim>\<open>http.Request\<close>: the worker only reads its \<^verbatim>\<open>URL\<close> field.\<close>

datatype Request = Request (ReqURL: url)

text \<open>
  \<^verbatim>\<open>http.Response\<close>: status code, content length, and the body, which is a stream the worker
  never reads itself; it is identified by a number so that closing it can be observed.
\<close>

record response =
  StatusCode :: int
  ContentLength :: int
  Body :: nat

text \<open>A Go \<^verbatim>\<open>error\<close> value is represented by its message.\<close>

type_synonym error = string

text \<open>
  \<^verbatim>\<open>results.Result\<close>, with the fields that \<^verbatim>\<open>TryURL\<close> fills in. A field the Go literal
  leaves out has Go's zero value: \<open>0\<close> for the integers, \<open>None\<close> for the nil error and
  the nil pointer.
\<close>

record Result =
  URL :: url
  Code :: int
  Error :: "error option"
  Redir :: "url option"
  Length :: int

text \<open>
  \<^verbatim>\<open>settings.ScanSettings\<close>. The flag \<^verbatim>\<open>Mangle\<close> is called \<open>Mangle_flag\<close> here, since the
  function \<^verbatim>\<open>Mangle\<close> of the package keeps its name. \<^verbatim>\<open>SleepTime\<close> is a
  \<^verbatim>\<open>time.Duration\<close>, an integer number of nanoseconds.
\<close>

record ScanSettings =
  Workers :: int
  Extensions :: "string list"
  Mangle_flag :: bool
  SpiderCodes :: "int list"
  SleepTime :: int
  ParseHTML :: bool

text \<open>
  The \<^verbatim>\<open>PageWorker\<close> interface. \<^verbatim>\<open>Eligible\<close> is a test on the response; \<^verbatim>\<open>Handle\<close> is an
  effect of the collaborator and shows up as an event below.
\<close>

datatype PageWorker = PageWorker (Eligible: "response \<Rightarrow> bool")

text \<open>
  Everything the worker does to the outside is recorded, in order, as an event:
  \<^item> \<open>Fetch u\<close>: \<^verbatim>\<open>w.client.RequestURL(u)\<close> was issued;
  \<^item> \<open>Emit r\<close>: \<^verbatim>\<open>w.rchan <- r\<close>;
  \<^item> \<open>Add u\<close>: \<^verbatim>\<open>w.adder(u)\<close>;
  \<^item> \<open>Done n\<close>: \<^verbatim>\<open>w.done(n)\<close>;
  \<^item> \<open>Close b\<close>: \<^verbatim>\<open>Body.Close()\<close> on the body \<open>b\<close>;
  \<^item> \<open>PageHandle u b\<close>: \<^verbatim>\<open>w.pageWorker.Handle(u, body)\<close>;
  \<^item> \<open>Sleep d\<close>: \<^verbatim>\<open>time.Sleep(d)\<close>.
  Calls to \<^verbatim>\<open>logging.Logf\<close> are left out.
\<close>

datatype event =
    Fetch url
  | Emit Result
  | Add url
  | Done int
  | Close nat
  | PageHandle url nat
  | Sleep int

text \<open>
  The \<^verbatim>\<open>Worker\<close> struct. \<open>client\<close> is the state of the worker's own transport; the
  channels and callbacks \<^verbatim>\<open>adder\<close>, \<^verbatim>\<open>done\<close> and \<^verbatim>\<open>rchan\<close> are write-only for the worker
  and are represented by the events sent to them, collected in \<open>trace\<close>. \<open>redir\<close> is
  the scratch slot that the redirect handler writes.
\<close>

record 'c Worker =
  client :: 'c
  settings :: ScanSettings
  pageWorker :: "PageWorker option"
  redir :: "Request option"
  trace :: "event list"

text \<open>
  What one call of \<^verbatim>\<open>RequestURL\<close> does, seen from the worker: the two return values
  \<^verbatim>\<open>(resp, err)\<close>, either of which may be nil, and in \<open>captured\<close> the request that the
  transport passed to the worker's redirect handler while the call was running, if it
  called the handler at all.
\<close>

record fetch =
  resp :: "response option"
  err :: "error option"
  captured :: "Request option"

text \<open>
  The transport (\<^verbatim>\<open>client.Client\<close>) is a collaborator: its method \<^verbatim>\<open>RequestURL\<close> is a
  parameter of the model, a function from the transport's state and the URL to the
  outcome and the transport's next state.
\<close>

type_synonym 'c transport = "'c \<Rightarrow> url \<Rightarrow> fetch \<times> 'c"

text \<open>Dereferencing a nil \<^verbatim>\<open>*http.Response\<close> panics.\<close>

datatype panic = NilDereference

section \<open>Helpers from other packages\<close>

text \<open>
  Modelled from the spec: \<^verbatim>\<open>util.URLIsDir\<close> is not among the sources. The spec calls a
  URL directory-style when its path ends in \<^verbatim>\<open>/\<close>.
\<close>

definition URLIsDir :: "url \<Rightarrow> bool" where
  "URLIsDir u = (Path u \<noteq> [] \<and> last (Path u) = CHR ''/'')"

text \<open>
  \<^verbatim>\<open>strings.LastIndex(s, sep)\<close> for a separator of one byte: the index of the last
  occurrence, or \<open>-1\<close>.
\<close>

fun LastIndex :: "string \<Rightarrow> char \<Rightarrow> int" where
  "LastIndex [] c = - 1"
| "LastIndex (x # xs) c =
     (let r = LastIndex xs c in
      if r \<noteq> - 1 then r + 1 else if x = c then 0 else - 1)"

text \<open>
  \<^verbatim>\<open>fmt.Sprintf(format, a)\<close> with one string argument, for a format with one \<^verbatim>\<open>%s\<close> verb and
  no other \<^verbatim>\<open>%\<close>: the text before the verb, the argument, the text after it.
\<close>

fun Sprintf :: "string \<Rightarrow> string \<Rightarrow> string" where
  "Sprintf [] a = []"
| "Sprintf [c] a = [c]"
| "Sprintf (c # d # rest) a =
     (if c = CHR ''%'' \<and> d = CHR ''s'' then a @ rest else c # Sprintf (d # rest) a)"

section \<open>The Mangle Engine\<close>

definition mangleRules :: "string list" where
  "mangleRules = [''.%s.swp'', ''%s~'', ''%s.bak'', ''%s.orig'']"

definition Mangle :: "string \<Rightarrow> string list" where
  "Mangle basename = map (\<lambda>rule. Sprintf rule basename) mangleRules"

section \<open>The worker\<close>

text \<open>The loop of \<^verbatim>\<open>KeepSpidering\<close> over \<^verbatim>\<open>w.settings.SpiderCodes\<close>.\<close>

fun codeAmong :: "int \<Rightarrow> int list \<Rightarrow> bool" where
  "codeAmong code [] = False"
| "codeAmong code (v # vs) = (if code = v then True else codeAmong code vs)"

definition KeepSpidering :: "'c Worker \<Rightarrow> int \<Rightarrow> bool" where
  "KeepSpidering w code = codeAmong code (SpiderCodes (settings w))"

definition emit :: "event \<Rightarrow> 'c Worker \<Rightarrow> 'c Worker" where
  "emit e w = w\<lparr>trace := trace w @ [e]\<rparr>"

text \<open>
  \<^verbatim>\<open>w.client.RequestURL(task)\<close> as the worker sees it: the transport moves to its next
  state, and if it called the redirect handler installed by \<^verbatim>\<open>NewWorker\<close>, the handler
  has stored the request in \<^verbatim>\<open>w.redir\<close>; otherwise the slot keeps what it held.
\<close>

definition doRequest :: "'c transport \<Rightarrow> 'c Worker \<Rightarrow> url \<Rightarrow> fetch \<times> 'c Worker" where
  "doRequest RequestURL w task =
     (let (f, c') = RequestURL (client w) task;
          w1 = emit (Fetch task) w;
          w2 = w1\<lparr>client := c'\<rparr>
      in (f, case captured f of None \<Rightarrow> w2 | Some req \<Rightarrow> w2\<lparr>redir := Some req\<rparr>))"

text \<open>The pacing at the end of \<^verbatim>\<open>TryURL\<close>.\<close>

definition pace :: "'c Worker \<Rightarrow> 'c Worker" where
  "pace w = (if SleepTime (settings w) \<noteq> 0 then emit (Sleep (SleepTime (settings w))) w else w)"

text \<open>
  \<^verbatim>\<open>TryURL\<close>. The deferred \<^verbatim>\<open>resp.Body.Close()\<close> runs when the function returns, after the
  pacing. In the second branch \<^verbatim>\<open>resp\<close> is dereferenced first of all, which panics when
  it is nil.
\<close>

definition TryURL :: "'c transport \<Rightarrow> 'c Worker \<Rightarrow> url \<Rightarrow> panic + (bool \<times> 'c Worker)" where
  "TryURL RequestURL w task =
     (let w0 = w\<lparr>redir := None\<rparr>;
          (f, w1) = doRequest RequestURL w0 task
      in if err f \<noteq> None \<and> redir w1 = None then
           let result = \<lparr>URL = task,
                         Code = (case resp f of None \<Rightarrow> 0 | Some r \<Rightarrow> StatusCode r),
                         Error = err f, Redir = None, Length = 0\<rparr>;
               w2 = emit (Emit result) w1
           in Inr (False, pace w2)
         else
           case resp f of
             None \<Rightarrow> Inl NilDereference
           | Some r \<Rightarrow>
               let w2 = (if URLIsDir task \<and> KeepSpidering w1 (StatusCode r)
                         then emit (Add task) w1 else w1);
                   w3 = (case redir w2 of None \<Rightarrow> w2
                         | Some req \<Rightarrow> emit (Add (ReqURL req)) w2);
                   w4 = (case pageWorker w3 of None \<Rightarrow> w3
                         | Some pw \<Rightarrow> if Eligible pw r
                                      then emit (PageHandle task (Body r)) w3 else w3);
                   rd = (case redir w4 of None \<Rightarrow> None | Some req \<Rightarrow> Some (ReqURL req));
                   w5 = emit (Emit \<lparr>URL = task, Code = StatusCode r, Error = None,
                                    Redir = rd, Length = ContentLength r\<rparr>) w4;
                   tryMangle = KeepSpidering w5 (StatusCode r);
                   w6 = pace w5
               in Inr (tryMangle, emit (Close (Body r)) w6))"

text \<open>The loop of \<^verbatim>\<open>TryMangleURL\<close> over the candidates; the result of each attempt is dropped.\<close>

fun mangleLoop ::
  "'c transport \<Rightarrow> 'c Worker \<Rightarrow> url \<Rightarrow> string \<Rightarrow> string list \<Rightarrow> panic + 'c Worker" where
  "mangleLoop RequestURL w clone dirname [] = Inr w"
| "mangleLoop RequestURL w clone dirname (newname # rest) =
     (case TryURL RequestURL w (clone\<lparr>Path := dirname @ ''/'' @ newname\<rparr>) of
        Inl p \<Rightarrow> Inl p
      | Inr (_, w') \<Rightarrow> mangleLoop RequestURL w' clone dirname rest)"

definition TryMangleURL :: "'c transport \<Rightarrow> 'c Worker \<Rightarrow> url \<Rightarrow> panic + 'c Worker" where
  "TryMangleURL RequestURL w task =
     (if \<not> Mangle_flag (settings w) then Inr w
      else
        let clone = task;
            spos = LastIndex (Path clone) CHR ''/''
        in if spos = - 1 then Inr w
           else
             let dirname = take (nat spos) (Path clone);
                 basename = drop (nat (spos + 1)) (Path clone)
             in mangleLoop RequestURL w clone dirname (Mangle basename))"

text \<open>The loop of \<^verbatim>\<open>HandleURL\<close> over \<^verbatim>\<open>w.settings.Extensions\<close>.\<close>

fun extLoop :: "'c transport \<Rightarrow> 'c Worker \<Rightarrow> url \<Rightarrow> string list \<Rightarrow> panic + 'c Worker" where
  "extLoop RequestURL w task [] = Inr w"
| "extLoop RequestURL w task (ext # rest) =
     (let task' = task\<lparr>Path := Path task @ ''.'' @ ext\<rparr> in
      case TryURL RequestURL w task' of
        Inl p \<Rightarrow> Inl p
      | Inr (b, w1) \<Rightarrow>
          (case (if b then TryMangleURL RequestURL w1 task' else Inr w1) of
             Inl p \<Rightarrow> Inl p
           | Inr w2 \<Rightarrow> extLoop RequestURL w2 task rest))"

text \<open>
  \<^verbatim>\<open>HandleURL\<close>. \<^verbatim>\<open>util.URLHasExtension\<close> is not among the sources and the spec does not
  say how it decides, so it is the parameter \<open>URLHasExtension\<close>.
\<close>

definition HandleURL ::
  "'c transport \<Rightarrow> (url \<Rightarrow> bool) \<Rightarrow> 'c Worker \<Rightarrow> url \<Rightarrow> panic + 'c Worker" where
  "HandleURL RequestURL URLHasExtension w task =
     (case TryURL RequestURL w task of
        Inl p \<Rightarrow> Inl p
      | Inr (withMangle, w1) \<Rightarrow>
          (case (if \<not> URLIsDir task then
                   (case (if withMangle then TryMangleURL RequestURL w1 task else Inr w1) of
                      Inl p \<Rightarrow> Inl p
                    | Inr w2 \<Rightarrow>
                        if \<not> URLHasExtension task
                        then extLoop RequestURL w2 task (Extensions (settings w2))
                        else Inr w2)
                 else Inr w1) of
             Inl p \<Rightarrow> Inl p
           | Inr w3 \<Rightarrow> Inr (emit (Done 1) w3)))"

section \<open>Reading a trace\<close>

text \<open>The URLs fetched, the records emitted, the URLs enqueued, the done signals and the
  bodies closed, each in the order of the events.\<close>

definition fetched :: "event list \<Rightarrow> url list" where
  "fetched evs = concat (map (\<lambda>e. case e of Fetch u \<Rightarrow> [u] | _ \<Rightarrow> []) evs)"

definition emitted :: "event list \<Rightarrow> Result list" where
  "emitted evs = concat (map (\<lambda>e. case e of Emit r \<Rightarrow> [r] | _ \<Rightarrow> []) evs)"

definition added :: "event list \<Rightarrow> url list" where
  "added evs = concat (map (\<lambda>e. case e of Add u \<Rightarrow> [u] | _ \<Rightarrow> []) evs)"

definition dones :: "event list \<Rightarrow> int list" where
  "dones evs = concat (map (\<lambda>e. case e of Done n \<Rightarrow> [n] | _ \<Rightarrow> []) evs)"

definition closed :: "event list \<Rightarrow> nat list" where
  "closed evs = concat (map (\<lambda>e. case e of Close b \<Rightarrow> [b] | _ \<Rightarrow> []) evs)"

text \<open>The pacing event, if the settings ask for one.\<close>

definition pause :: "ScanSettings \<Rightarrow> event list" where
  "pause st = (if SleepTime st \<noteq> 0 then [Sleep (SleepTime st)] else [])"

text \<open>
  A transport is responsive when every call returns a response, except possibly a call
  that fails without having consulted the redirect handler.
\<close>

definition responsive :: "'c transport \<Rightarrow> bool" where
  "responsive RequestURL =
     (\<forall>c u. resp (fst (RequestURL c u)) \<noteq> None
            \<or> (err (fst (RequestURL c u)) \<noteq> None \<and> captured (fst (RequestURL c u)) = None))"

text \<open>
  A Result Record tells whether the attempt that emitted it asks for more: it carries no
  error and its status code is spiderable.
\<close>

definition proceeds :: "ScanSettings \<Rightarrow> Result \<Rightarrow> bool" where
  "proceeds st r = (Error r = None \<and> Code r \<in> set (SpiderCodes st))"

text \<open>
  The mangle variants of a URL, in the spec's words: none when mangling is disabled or
  the path has no separator; otherwise the URL with the part of its path after the
  last separator replaced by each candidate of the Mangle Engine.
\<close>

definition mangleVariants :: "ScanSettings \<Rightarrow> url \<Rightarrow> url list" where
  "mangleVariants st u =
     (if Mangle_flag st \<and> CHR ''/'' \<in> set (Path u)
      then map (\<lambda>n. u\<lparr>Path := rev (dropWhile (\<lambda>c. c \<noteq> CHR ''/'') (rev (Path u))) @ n\<rparr>)
               (Mangle (rev (takeWhile (\<lambda>c. c \<noteq> CHR ''/'') (rev (Path u)))))
      else [])"

text \<open>
  The attempts that one extension makes, read off the Result Records: the record \<open>fst g\<close>
  of the variant, whose URL is the task's with \<^verbatim>\<open>"." + ext\<close> appended to the path,
  followed by the records \<open>snd g\<close> of the variant's own mangle variants if the variant's
  record asks for more, and by nothing otherwise.
\<close>

definition variantGroup :: "ScanSettings \<Rightarrow> url \<Rightarrow> string \<Rightarrow> Result \<times> Result list \<Rightarrow> bool" where
  "variantGroup st task ext g =
     (URL (fst g) = task\<lparr>Path := Path task @ ''.'' @ ext\<rparr>
      \<and> map URL (snd g) = (if proceeds st (fst g) then mangleVariants st (URL (fst g)) else []))"

section \<open>A small scan, for the examples\<close>

text \<open>
  One worker without a page worker, one extension, mangling on, \<open>200\<close> the only
  spiderable code, no pacing.
\<close>

definition exSettings :: ScanSettings where
  "exSettings = \<lparr>Workers = 1, Extensions = [''php''], Mangle_flag = True,
                  SpiderCodes = [200], SleepTime = 0, ParseHTML = False\<rparr>"

definition exWorker :: "unit Worker" where
  "exWorker = \<lparr>client = (), settings = exSettings, pageWorker = None,
                redir = None, trace = []\<rparr>"

definition exURL :: "string \<Rightarrow> url" where
  "exURL p = \<lparr>Scheme = ''http'', Host = ''x'', Path = p, RawQuery = ''''\<rparr>"

definition answer :: "int \<Rightarrow> nat \<Rightarrow> fetch" where
  "answer code b =
     \<lparr>resp = Some \<lparr>StatusCode = code, ContentLength = 0, Body = b\<rparr>,
      err = None, captured = None\<rparr>"

text \<open>
  A server that has \<^verbatim>\<open>/admin\<close> and the directory \<^verbatim>\<open>/dir/\<close>, redirects \<^verbatim>\<open>/old\<close> to \<^verbatim>\<open>/new\<close>
  (the transport stops at the redirect with the handler's error), cannot be reached for
  \<^verbatim>\<open>/down\<close>, breaks off after the status line for \<^verbatim>\<open>/broken\<close>, and answers \<open>404\<close>
  to everything else.
\<close>

definition exServer :: "unit transport" where
  "exServer c u =
     (if Path u = ''/admin'' \<or> Path u = ''/dir/'' then answer 200 1
      else if Path u = ''/old'' then
        \<lparr>resp = Some \<lparr>StatusCode = 301, ContentLength = 0, Body = 2\<rparr>,
         err = Some ''Stop redirect.'', captured = Some (Request (exURL ''/new''))\<rparr>
      else if Path u = ''/down'' then
        \<lparr>resp = None, err = Some ''timeout'', captured = None\<rparr>
      else if Path u = ''/broken'' then
        \<lparr>resp = Some \<lparr>StatusCode = 502, ContentLength = 0, Body = 3\<rparr>,
         err = Some ''unexpected EOF'', captured = None\<rparr>
      else answer 404 4,
      c)"

section \<open>The Mangle Engine: properties\<close>

text \<open>
  Claim C9. \<^verbatim>\<open>Mangle\<close> is a function of the basename alone; for every basename, the empty
  one included, it returns the four candidates \<^verbatim>\<open>.name.swp\<close>, \<^verbatim>\<open>name~\<close>, \<^verbatim>\<open>name.bak\<close>,
  \<^verbatim>\<open>name.orig\<close> in this order, and \<^verbatim>\<open>Mangle("config")\<close> is
  \<^verbatim>\<open>[".config.swp", "config~", "config.bak", "config.orig"]\<close>.
\<close>

theorem Mangle_candidates:
  "length (Mangle basename) = 4
   \<and> Mangle basename =
       [''.'' @ basename @ ''.swp'', basename @ ''~'', basename @ ''.bak'', basename @ ''.orig'']
   \<and> Mangle '''' = [''..swp'', ''~'', ''.bak'', ''.orig'']
   \<and> Mangle ''config'' = [''.config.swp'', ''config~'', ''config.bak'', ''config.orig'']"
  by (simp add: Mangle_def mangleRules_def)

end
